theory Spec2Isabelle
  imports Complex_Main "HOL-Library.AList" "HOL-Library.Log_Nat"
begin

section \<open>Python values used by the SAT results managers\<close>

text \<open>
  The repository holds two programs over the same JSON store:
  \<^verbatim>\<open>sat.py\<close> (class \<^verbatim>\<open>SATResultsManager\<close>) and \<^verbatim>\<open>sat_manager.py\<close>
  (module-level functions). Both are embedded here. Definitions taken from
  \<^verbatim>\<open>sat.py\<close> keep the method names; those taken from \<^verbatim>\<open>sat_manager.py\<close> carry the
  suffix \<open>_mgr\<close>, because the two files use the same function names.
\<close>

subsection \<open>Exceptions\<close>

text \<open>
  The exception classes that occur. \<^verbatim>\<open>UnicodeEncodeError\<close>, \<^verbatim>\<open>UnicodeDecodeError\<close>
  and \<^verbatim>\<open>JSONDecodeError\<close> are subclasses of \<^verbatim>\<open>ValueError\<close>; \<^verbatim>\<open>IOError\<close> is
  another name of \<^verbatim>\<open>OSError\<close>. All of them are subclasses of \<^verbatim>\<open>Exception\<close>.
\<close>

datatype pyerr =
    EOFError
  | OSError
  | ValueError
  | UnicodeEncodeError
  | UnicodeDecodeError
  | JSONDecodeError
  | TypeError
  | OverflowError
  | ZeroDivisionError
  | RecursionError

fun is_ValueError :: "pyerr \<Rightarrow> bool" where
  "is_ValueError ValueError = True"
| "is_ValueError UnicodeEncodeError = True"
| "is_ValueError UnicodeDecodeError = True"
| "is_ValueError JSONDecodeError = True"
| "is_ValueError e = False"

fun is_IOError :: "pyerr \<Rightarrow> bool" where
  "is_IOError OSError = True"
| "is_IOError e = False"

subsection \<open>Floats\<close>

text \<open>
  A Python float is an IEEE 754 double. \<open>Fin x\<close> is the finite double of value \<open>x\<close>
  (\<open>Fin 0\<close> is \<open>+0.0\<close>), \<open>NegZero\<close> is \<open>-0.0\<close>. The comparisons are the IEEE
  ones: every ordered comparison with NaN is false, NaN is not equal to itself, and the
  two zeros are equal.
\<close>

datatype pyfloat = Fin rat | NegZero | PInf | NInf | NaN

fun is_finite :: "pyfloat \<Rightarrow> bool" where
  "is_finite (Fin x) = True"
| "is_finite NegZero = True"
| "is_finite v = False"

fun fin_val :: "pyfloat \<Rightarrow> rat" where
  "fin_val (Fin x) = x"
| "fin_val v = 0"

fun is_neg :: "pyfloat \<Rightarrow> bool" where
  "is_neg (Fin x) = (x < 0)"
| "is_neg NegZero = True"
| "is_neg NInf = True"
| "is_neg v = False"

fun fneg :: "pyfloat \<Rightarrow> pyfloat" where
  "fneg (Fin x) = (if x = 0 then NegZero else Fin (- x))"
| "fneg NegZero = Fin 0"
| "fneg PInf = NInf"
| "fneg NInf = PInf"
| "fneg NaN = NaN"

fun flt :: "pyfloat \<Rightarrow> pyfloat \<Rightarrow> bool" where
  "flt NaN b = False"
| "flt a NaN = False"
| "flt PInf b = False"
| "flt a NInf = False"
| "flt NInf b = True"
| "flt a PInf = True"
| "flt a b = (fin_val a < fin_val b)"

definition fgt :: "pyfloat \<Rightarrow> pyfloat \<Rightarrow> bool" where
  "fgt a b = flt b a"

fun feq :: "pyfloat \<Rightarrow> pyfloat \<Rightarrow> bool" where
  "feq NaN b = False"
| "feq a NaN = False"
| "feq PInf b = (b = PInf)"
| "feq NInf b = (b = NInf)"
| "feq a PInf = False"
| "feq a NInf = False"
| "feq a b = (fin_val a = fin_val b)"

definition fle :: "pyfloat \<Rightarrow> pyfloat \<Rightarrow> bool" where
  "fle a b = (flt a b \<or> feq a b)"

text \<open>
  Rounding a non-negative rational to the nearest double, ties to even: with
  \<open>2 ^ e \<le> x < 2 ^ (e + 1)\<close> the spacing of the doubles around \<open>x\<close> is \<open>2 ^ q\<close>,
  \<open>q = max (e - 52) (- 1074)\<close> (subnormals below \<open>2 ^ (- 1022)\<close>), and the result is the
  nearest multiple of it. It is infinite when that multiple reaches \<open>2 ^ 1024\<close>, which
  is the case when \<open>1024 \<le> e\<close>, or \<open>e = 1023\<close> and the multiple is \<open>2 ^ 53 * 2 ^ 971\<close>.
\<close>

definition pow2 :: "int \<Rightarrow> rat" where
  "pow2 k = (if 0 \<le> k then 2 ^ nat k else 1 / 2 ^ nat (- k))"

definition ilog2 :: "rat \<Rightarrow> int" where
  "ilog2 x =
     (case quotient_of x of
        (p, q) \<Rightarrow> (let k = bitlen p - bitlen q in if pow2 k \<le> x then k else k - 1))"

definition round_half_even :: "rat \<Rightarrow> int" where
  "round_half_even x =
     (let f = \<lfloor>x\<rfloor>; d = x - of_int f
      in if d < 1 / 2 then f
         else if 1 / 2 < d then f + 1
         else if even f then f else f + 1)"

definition round_mag :: "rat \<Rightarrow> pyfloat" where
  "round_mag x =
     (if x = 0 then Fin 0
      else
        (let e = ilog2 x;
             q = max (e - 52) (- 1074);
             m = round_half_even (x / pow2 q)
         in if 1024 \<le> e then PInf
            else if e = 1023 \<and> m = 2 ^ 53 then PInf
            else Fin (of_int m * pow2 q)))"

definition round_double :: "rat \<Rightarrow> pyfloat" where
  "round_double x = (if x < 0 then fneg (round_mag (- x)) else round_mag x)"

text \<open>
  The product of two floats: NaN if an operand is NaN or if zero meets an infinity, a zero
  or an infinity of the product's sign where the exact product is zero or infinite, and
  the rounded exact product otherwise.
\<close>

definition fmul :: "pyfloat \<Rightarrow> pyfloat \<Rightarrow> pyfloat" where
  "fmul a b =
     (if a = NaN \<or> b = NaN then NaN
      else if is_finite a \<and> is_finite b then
        (if fin_val a * fin_val b = 0
         then (if is_neg a \<noteq> is_neg b then NegZero else Fin 0)
         else round_double (fin_val a * fin_val b))
      else if (is_finite a \<and> fin_val a = 0) \<or> (is_finite b \<and> fin_val b = 0) then NaN
      else if is_neg a \<noteq> is_neg b then NInf
      else PInf)"

text \<open>
  \<^verbatim>\<open>a / b\<close> on two Python integers is the correctly rounded quotient;
  \<^verbatim>\<open>float(i)\<close> on an integer is the correctly rounded value. Both raise
  \<^verbatim>\<open>OverflowError\<close> instead of returning an infinity.
\<close>

definition finite_or_overflow :: "pyfloat \<Rightarrow> pyerr + pyfloat" where
  "finite_or_overflow f = (if f = PInf \<or> f = NInf then Inl OverflowError else Inr f)"

definition int_truediv :: "int \<Rightarrow> int \<Rightarrow> pyerr + pyfloat" where
  "int_truediv a b =
     (if b = 0 then Inl ZeroDivisionError
      else if a = 0 then Inr (if b < 0 then NegZero else Fin 0)
      else finite_or_overflow (round_double (of_int a / of_int b)))"

definition float_of_int :: "int \<Rightarrow> pyerr + pyfloat" where
  "float_of_int i = finite_or_overflow (round_double (of_int i))"

text \<open>The literal \<^verbatim>\<open>0.3\<close> of both \<^verbatim>\<open>compute_pass\<close> functions.\<close>

definition lit_0_3 :: pyfloat where
  "lit_0_3 = round_double (3 / 10)"

subsection \<open>Strings\<close>

text \<open>
  A string is a list of characters, a character being a code point below 256 (ASCII and
  Latin-1). On these, \<^verbatim>\<open>str.isspace\<close> holds for code points 9 to 13, 28 to 32, 133
  and 160; \<^verbatim>\<open>str.isdigit\<close> for \<open>0\<close> to \<open>9\<close> and the superscripts 178, 179 and
  185; \<^verbatim>\<open>str.lower\<close> adds 32 to \<open>A\<close>..\<open>Z\<close> and to 192..222 except 215.
  \<^verbatim>\<open>str.strip()\<close> removes leading and trailing whitespace. Text that cannot be
  encoded to UTF-8 (a lone surrogate, which \<^verbatim>\<open>input()\<close> returns for an undecodable
  byte) is not a string of the model; what it does to a write is part of the disk's
  behaviour below.
\<close>

definition isspace :: "char \<Rightarrow> bool" where
  "isspace c =
     (let n = (of_char c :: nat)
      in (9 \<le> n \<and> n \<le> 13) \<or> (28 \<le> n \<and> n \<le> 32) \<or> n = 133 \<or> n = 160)"

definition strip :: "string \<Rightarrow> string" where
  "strip s = rev (dropWhile isspace (rev (dropWhile isspace s)))"

definition is_decimal :: "char \<Rightarrow> bool" where
  "is_decimal c = (let n = (of_char c :: nat) in 48 \<le> n \<and> n \<le> 57)"

definition is_digit :: "char \<Rightarrow> bool" where
  "is_digit c = (let n = (of_char c :: nat) in is_decimal c \<or> n = 178 \<or> n = 179 \<or> n = 185)"

definition digit_val :: "char \<Rightarrow> int" where
  "digit_val c = of_char c - 48"

definition isdigit :: "string \<Rightarrow> bool" where
  "isdigit s = (s \<noteq> [] \<and> list_all is_digit s)"

definition lower_char :: "char \<Rightarrow> char" where
  "lower_char c =
     (let n = (of_char c :: nat)
      in if (65 \<le> n \<and> n \<le> 90) \<or> (192 \<le> n \<and> n \<le> 222 \<and> n \<noteq> 215)
         then char_of (n + 32) else c)"

definition lower :: "string \<Rightarrow> string" where
  "lower s = map lower_char s"

subsection \<open>The builtin \<^verbatim>\<open>float()\<close>\<close>

text \<open>
  \<^verbatim>\<open>float(s)\<close> on a string follows the grammar of the language reference:
  surrounding whitespace is dropped, then an optional sign and one of \<^verbatim>\<open>inf\<close>,
  \<^verbatim>\<open>infinity\<close>, \<^verbatim>\<open>nan\<close> (in any case) or a decimal number
  \<^verbatim>\<open>[digitpart] "." digitpart | digitpart ["."]\<close> with an optional exponent, where
  \<^verbatim>\<open>digitpart\<close> is decimal digits with single underscores between them. Anything
  else is a \<^verbatim>\<open>ValueError\<close>, here \<open>None\<close>. The value is the decimal number rounded
  to the nearest double, with the sign of the text (so \<^verbatim>\<open>"-0"\<close> is \<open>-0.0\<close>).
\<close>

fun digits_tail :: "string \<Rightarrow> int list \<Rightarrow> int list \<times> string" where
  "digits_tail [] acc = (acc, [])"
| "digits_tail [c] acc = (if is_decimal c then (acc @ [digit_val c], []) else (acc, [c]))"
| "digits_tail (c # d # cs) acc =
     (if is_decimal c then digits_tail (d # cs) (acc @ [digit_val c])
      else if c = CHR ''_'' \<and> is_decimal d then digits_tail cs (acc @ [digit_val d])
      else (acc, c # d # cs))"

definition digitpart :: "string \<Rightarrow> (int list \<times> string) option" where
  "digitpart s =
     (case s of
        [] \<Rightarrow> None
      | c # cs \<Rightarrow> if is_decimal c then Some (digits_tail cs [digit_val c]) else None)"

definition number :: "string \<Rightarrow> (int list \<times> int list \<times> string) option" where
  "number s =
     (case digitpart s of
        Some (ip, r) \<Rightarrow>
          (case r of
             [] \<Rightarrow> Some (ip, [], [])
           | c # r' \<Rightarrow>
               if c = CHR ''.'' then
                 (case digitpart r' of
                    Some (fp, r'') \<Rightarrow> Some (ip, fp, r'')
                  | None \<Rightarrow> Some (ip, [], r'))
               else Some (ip, [], r))
      | None \<Rightarrow>
          (case s of
             [] \<Rightarrow> None
           | c # r' \<Rightarrow>
               if c = CHR ''.'' then
                 (case digitpart r' of
                    Some (fp, r'') \<Rightarrow> Some ([], fp, r'')
                  | None \<Rightarrow> None)
               else None))"

definition sign_of :: "string \<Rightarrow> bool \<times> string" where
  "sign_of s =
     (case s of
        [] \<Rightarrow> (False, [])
      | c # cs \<Rightarrow>
          if c = CHR ''-'' then (True, cs)
          else if c = CHR ''+'' then (False, cs)
          else (False, s))"

definition int_of_digits :: "int list \<Rightarrow> int" where
  "int_of_digits ds = foldl (\<lambda>a d. 10 * a + d) 0 ds"

definition decimal_value :: "int list \<Rightarrow> int list \<Rightarrow> int \<Rightarrow> rat" where
  "decimal_value ip fp e =
     (let m = of_int (int_of_digits (ip @ fp)); k = e - int (length fp)
      in if 0 \<le> k then m * 10 ^ nat k else m / 10 ^ nat (- k))"

definition to_double :: "bool \<Rightarrow> rat \<Rightarrow> pyfloat" where
  "to_double neg x = (if neg then fneg (round_mag x) else round_mag x)"

definition float_of_str :: "string \<Rightarrow> pyfloat option" where
  "float_of_str str =
     (let (neg, body) = sign_of (strip str); low = lower body
      in if low = ''inf'' \<or> low = ''infinity'' then Some (if neg then NInf else PInf)
         else if low = ''nan'' then Some NaN
         else
           (case number body of
              None \<Rightarrow> None
            | Some (ip, fp, r) \<Rightarrow>
                (case r of
                   [] \<Rightarrow> Some (to_double neg (decimal_value ip fp 0))
                 | c # r' \<Rightarrow>
                     if c = CHR ''e'' \<or> c = CHR ''E'' then
                       (let (eneg, eb) = sign_of r'
                        in case digitpart eb of
                             Some (ed, []) \<Rightarrow>
                               Some (to_double neg (decimal_value ip fp
                                 (if eneg then - int_of_digits ed else int_of_digits ed)))
                           | _ \<Rightarrow> None)
                     else None)))"

text \<open>
  Values as \<^verbatim>\<open>json.load\<close> produces them, and \<^verbatim>\<open>float(x)\<close> on any of them:
  an integer too large for a double raises \<^verbatim>\<open>OverflowError\<close>, an unparseable
  string \<^verbatim>\<open>ValueError\<close>, \<^verbatim>\<open>None\<close>, a list or a dict \<^verbatim>\<open>TypeError\<close>.
\<close>

datatype pyval =
    PNone
  | PBool bool
  | PInt int
  | PFloat pyfloat
  | PStr string
  | PList "pyval list"
  | PDict "(string \<times> pyval) list"

fun py_float :: "pyval \<Rightarrow> pyerr + pyfloat" where
  "py_float (PFloat f) = Inr f"
| "py_float (PInt i) = float_of_int i"
| "py_float (PBool b) = Inr (Fin (if b then 1 else 0))"
| "py_float (PStr s) =
     (case float_of_str s of None \<Rightarrow> Inl ValueError | Some f \<Rightarrow> Inr f)"
| "py_float PNone = Inl TypeError"
| "py_float (PList xs) = Inl TypeError"
| "py_float (PDict kvs) = Inl TypeError"

section \<open>The store\<close>

text \<open>
  A record is the dict that \<^verbatim>\<open>insert_data\<close> builds; the store is the dict
  \<^verbatim>\<open>{"max_score": ..., "records": {...}}\<close>. A Python dict keeps insertion order, so
  \<open>records\<close> is an association list: \<^verbatim>\<open>d[k] = v\<close> is \<^const>\<open>AList.update\<close>
  (replace in place, or append a new key), \<^verbatim>\<open>del d[k]\<close> is \<^const>\<open>AList.delete\<close>,
  \<^verbatim>\<open>d[k]\<close> and \<^verbatim>\<open>k in d\<close> are \<^const>\<open>map_of\<close>. The integer defaults of
  \<^verbatim>\<open>max_score\<close> (1600, 100) are stored as the floats of the same value, to which
  Python converts them in \<^verbatim>\<open>0.3 * max_score\<close> and with which it compares alike.
\<close>

record candidate =
  name :: string
  address :: string
  city :: string
  country :: string
  pincode :: string
  sat_score :: pyfloat
  passed :: bool

record store =
  max_score :: pyfloat
  records :: "(string \<times> candidate) list"

text \<open>
  What an operation leaves behind: the store in memory, the store last handed to
  \<^verbatim>\<open>json.dump\<close> (if \<^verbatim>\<open>save_data\<close> was called) and how the operation ended.
  \<open>Raised e\<close> is an exception that leaves the operation.
\<close>

datatype status =
    Saved
  | SaveFailed
  | NoRecords
  | NotFound
  | AlreadyExists
  | EmptyName
  | Cancelled
  | Raised pyerr

record result =
  mem :: store
  dumped :: "store option"
  status :: status

definition finish :: "store \<Rightarrow> status \<Rightarrow> result" where
  "finish s st = \<lparr>mem = s, dumped = None, status = st\<rparr>"

text \<open>
  Console input is the list of lines still to be typed. Every \<^verbatim>\<open>input(...)\<close> of
  the two programs is followed by \<^verbatim>\<open>.strip()\<close>; on exhausted input Python raises
  \<^verbatim>\<open>EOFError\<close>, here \<open>None\<close>.
\<close>

definition read_line :: "string list \<Rightarrow> (string \<times> string list) option" where
  "read_line ins = (case ins of [] \<Rightarrow> None | l # ls \<Rightarrow> Some (strip l, ls))"

text \<open>
  What writing the data file does: it succeeds, or \<^verbatim>\<open>open\<close> or \<^verbatim>\<open>json.dump\<close>
  raises (\<^verbatim>\<open>OSError\<close> for a disk or permission failure,
  \<^verbatim>\<open>UnicodeEncodeError\<close> for text that cannot be encoded).
\<close>

datatype disk = WriteOk | WriteRaises pyerr

section \<open>\<^verbatim>\<open>sat.py\<close>: class \<^verbatim>\<open>SATResultsManager\<close>\<close>

text \<open>The default of the constructor's parameter, which \<^verbatim>\<open>main\<close> does not override.\<close>

definition default_max_score :: int where
  "default_max_score = 1600"

text \<open>
  \<^verbatim>\<open>save_data\<close> catches \<^verbatim>\<open>IOError\<close> only and returns \<^verbatim>\<open>False\<close> for it;
  any other exception of the write leaves \<^verbatim>\<open>save_data\<close>.
\<close>

definition save_data :: "disk \<Rightarrow> store \<Rightarrow> pyerr + bool" where
  "save_data dk s =
     (case dk of
        WriteOk \<Rightarrow> Inr True
      | WriteRaises e \<Rightarrow> if is_IOError e then Inr False else Inl e)"

definition validate_score :: "store \<Rightarrow> string \<Rightarrow> pyfloat option" where
  "validate_score s score_str =
     (case float_of_str (strip score_str) of
        None \<Rightarrow> None
      | Some score \<Rightarrow>
          if flt score (Fin 0) then None
          else if fgt score (max_score s) then None
          else Some score)"

definition compute_pass :: "store \<Rightarrow> pyfloat \<Rightarrow> bool" where
  "compute_pass s score = fgt score (fmul lit_0_3 (max_score s))"

definition validate_name :: "string \<Rightarrow> bool" where
  "validate_name n =
     (let name = strip n
      in if name = [] then False
         else if length name > 100 then False
         else True)"

text \<open>The three prompting loops of \<^verbatim>\<open>insert_data\<close>; each turn consumes one line.\<close>

datatype 'a prompt = Eof | Stop | Got 'a "string list"

fun read_new_name :: "store \<Rightarrow> string list \<Rightarrow> string prompt" where
  "read_new_name s [] = Eof"
| "read_new_name s (l # ls) =
     (if \<not> validate_name (strip l) then read_new_name s ls
      else if map_of (records s) (strip l) \<noteq> None then Stop
      else Got (strip l) ls)"

fun read_pincode :: "string list \<Rightarrow> (string \<times> string list) option" where
  "read_pincode [] = None"
| "read_pincode (l # ls) =
     (if strip l = [] then read_pincode ls
      else if \<not> isdigit (strip l) \<or> length (strip l) < 3 then read_pincode ls
      else Some (strip l, ls))"

fun read_score :: "store \<Rightarrow> string list \<Rightarrow> (pyfloat \<times> string list) option" where
  "read_score s [] = None"
| "read_score s (l # ls) =
     (case validate_score s (strip l) of
        None \<Rightarrow> read_score s ls
      | Some score \<Rightarrow> Some (score, ls))"

definition insert_data :: "store \<Rightarrow> string list \<Rightarrow> disk \<Rightarrow> result" where
  "insert_data s ins dk =
     (case read_new_name s ins of
        Eof \<Rightarrow> finish s (Raised EOFError)
      | Stop \<Rightarrow> finish s AlreadyExists
      | Got nm ins1 \<Rightarrow>
     (case read_line ins1 of
        None \<Rightarrow> finish s (Raised EOFError)
      | Some (addr, ins2) \<Rightarrow>
     (case read_line ins2 of
        None \<Rightarrow> finish s (Raised EOFError)
      | Some (cty, ins3) \<Rightarrow>
     (case read_line ins3 of
        None \<Rightarrow> finish s (Raised EOFError)
      | Some (ctry, ins4) \<Rightarrow>
     (case read_pincode ins4 of
        None \<Rightarrow> finish s (Raised EOFError)
      | Some (pin, ins5) \<Rightarrow>
     (case read_score s ins5 of
        None \<Rightarrow> finish s (Raised EOFError)
      | Some (score, ins6) \<Rightarrow>
          (let rec = \<lparr>name = nm, address = addr, city = cty, country = ctry,
                      pincode = pin, sat_score = score,
                      passed = compute_pass s score\<rparr>;
               s1 = s\<lparr>records := AList.update nm rec (records s)\<rparr>
           in case save_data dk s1 of
                Inl e \<Rightarrow> \<lparr>mem = s1, dumped = Some s1, status = Raised e\<rparr>
              | Inr ok \<Rightarrow>
                  if ok then \<lparr>mem = s1, dumped = Some s1, status = Saved\<rparr>
                  else \<lparr>mem = s1\<lparr>records := AList.delete nm (records s1)\<rparr>,
                        dumped = Some s1, status = SaveFailed\<rparr>)))))))"

text \<open>
  \<^verbatim>\<open>get_rank\<close> prints the score, the rank out of the total, the percentile and,
  only when more than one record has the candidate's score, the number of records with
  that score. The report holds what is printed; the percentile is the computed float (it
  is printed to one decimal).
\<close>

record rank_report =
  r_score :: pyfloat
  r_rank :: nat
  r_total :: nat
  r_percentile :: "pyfloat option"
  r_note :: "nat option"

datatype rank_result =
  RankNoRecords | RankNotFound | RankEof | RankRaised pyerr | Rank rank_report

definition all_scores :: "store \<Rightarrow> pyfloat list" where
  "all_scores s = map (\<lambda>(k, r). sat_score r) (records s)"

definition higher_count :: "store \<Rightarrow> pyfloat \<Rightarrow> nat" where
  "higher_count s my_score = length (filter (\<lambda>score. fgt score my_score) (all_scores s))"

definition same_score_count :: "store \<Rightarrow> pyfloat \<Rightarrow> nat" where
  "same_score_count s my_score = length (filter (\<lambda>score. feq score my_score) (all_scores s))"

definition percentile :: "nat \<Rightarrow> nat \<Rightarrow> pyerr + pyfloat" where
  "percentile total_candidates rnk =
     (case int_truediv (int total_candidates - int rnk + 1) (int total_candidates) of
        Inl e \<Rightarrow> Inl e
      | Inr d \<Rightarrow> Inr (fmul d (Fin 100)))"

definition get_rank :: "store \<Rightarrow> string list \<Rightarrow> rank_result" where
  "get_rank s ins =
     (if records s = [] then RankNoRecords
      else case read_line ins of
        None \<Rightarrow> RankEof
      | Some (nm, ins1) \<Rightarrow>
          (case map_of (records s) nm of
             None \<Rightarrow> RankNotFound
           | Some cand \<Rightarrow>
               (let my_score = sat_score cand;
                    rnk = higher_count s my_score + 1;
                    same = same_score_count s my_score;
                    total_candidates = length (all_scores s)
                in case percentile total_candidates rnk of
                     Inl e \<Rightarrow> RankRaised e
                   | Inr p \<Rightarrow>
                       Rank \<lparr>r_score = my_score, r_rank = rnk, r_total = total_candidates,
                             r_percentile = Some p,
                             r_note = (if same > 1 then Some same else None)\<rparr>)))"

definition update_score :: "store \<Rightarrow> string list \<Rightarrow> disk \<Rightarrow> result" where
  "update_score s ins dk =
     (if records s = [] then finish s NoRecords
      else case read_line ins of
        None \<Rightarrow> finish s (Raised EOFError)
      | Some (nm, ins1) \<Rightarrow>
     (case map_of (records s) nm of
        None \<Rightarrow> finish s NotFound
      | Some current_record \<Rightarrow>
     (case read_score s ins1 of
        None \<Rightarrow> finish s (Raised EOFError)
      | Some (new_score, ins2) \<Rightarrow>
          (let old_score = sat_score current_record;
               old_status = passed current_record;
               changed = current_record\<lparr>sat_score := new_score,
                                         passed := compute_pass s new_score\<rparr>;
               s1 = s\<lparr>records := AList.update nm changed (records s)\<rparr>
           in case save_data dk s1 of
                Inl e \<Rightarrow> \<lparr>mem = s1, dumped = Some s1, status = Raised e\<rparr>
              | Inr ok \<Rightarrow>
                  if ok then \<lparr>mem = s1, dumped = Some s1, status = Saved\<rparr>
                  else \<lparr>mem = s1\<lparr>records := AList.update nm
                                 (changed\<lparr>sat_score := old_score, passed := old_status\<rparr>)
                                 (records s1)\<rparr>,
                        dumped = Some s1, status = SaveFailed\<rparr>))))"

definition delete_one_record :: "store \<Rightarrow> string list \<Rightarrow> disk \<Rightarrow> result" where
  "delete_one_record s ins dk =
     (if records s = [] then finish s NoRecords
      else case read_line ins of
        None \<Rightarrow> finish s (Raised EOFError)
      | Some (nm, ins1) \<Rightarrow>
     (case map_of (records s) nm of
        None \<Rightarrow> finish s NotFound
      | Some rec \<Rightarrow>
     (case read_line ins1 of
        None \<Rightarrow> finish s (Raised EOFError)
      | Some (confirm, ins2) \<Rightarrow>
          if confirm = ''DELETE '' @ nm then
            (let backup_record = rec;
                 s1 = s\<lparr>records := AList.delete nm (records s)\<rparr>
             in case save_data dk s1 of
                  Inl e \<Rightarrow> \<lparr>mem = s1, dumped = Some s1, status = Raised e\<rparr>
                | Inr ok \<Rightarrow>
                    if ok then \<lparr>mem = s1, dumped = Some s1, status = Saved\<rparr>
                    else \<lparr>mem = s1\<lparr>records := AList.update nm backup_record (records s1)\<rparr>,
                          dumped = Some s1, status = SaveFailed\<rparr>)
          else finish s Cancelled)))"

text \<open>
  \<^verbatim>\<open>set_max_score\<close>: the prompt loop ends on an empty line (cancel) or on a number
  that is not \<open>\<le> 0\<close>; then the pass flag of every record is recomputed under the new
  maximum, and again under the old one when the write fails with an \<^verbatim>\<open>IOError\<close>.
\<close>

fun read_new_max :: "string list \<Rightarrow> pyfloat prompt" where
  "read_new_max [] = Eof"
| "read_new_max (l # ls) =
     (if strip l = [] then Stop
      else case float_of_str (strip l) of
        None \<Rightarrow> read_new_max ls
      | Some new_max \<Rightarrow>
          if fle new_max (Fin 0) then read_new_max ls else Got new_max ls)"

definition recompute :: "store \<Rightarrow> store" where
  "recompute s =
     s\<lparr>records := map (\<lambda>(k, r). (k, r\<lparr>passed := compute_pass s (sat_score r)\<rparr>)) (records s)\<rparr>"

definition set_max_score :: "store \<Rightarrow> string list \<Rightarrow> disk \<Rightarrow> result" where
  "set_max_score s ins dk =
     (case read_new_max ins of
        Eof \<Rightarrow> finish s (Raised EOFError)
      | Stop \<Rightarrow> finish s Cancelled
      | Got new_max ins1 \<Rightarrow>
          (let old_max = max_score s;
               s1 = recompute (s\<lparr>max_score := new_max\<rparr>)
           in case save_data dk s1 of
                Inl e \<Rightarrow> \<lparr>mem = s1, dumped = Some s1, status = Raised e\<rparr>
              | Inr ok \<Rightarrow>
                  if ok then \<lparr>mem = s1, dumped = Some s1, status = Saved\<rparr>
                  else \<lparr>mem = recompute (s1\<lparr>max_score := old_max\<rparr>),
                        dumped = Some s1, status = SaveFailed\<rparr>))"

text \<open>
  \<^verbatim>\<open>load_data\<close> sees the data file in one of three states: it does not exist;
  opening or parsing it raises (\<^verbatim>\<open>OSError\<close> when it cannot be read,
  \<^verbatim>\<open>JSONDecodeError\<close> or \<^verbatim>\<open>UnicodeDecodeError\<close> when its text is not JSON); or
  \<^verbatim>\<open>json.load\<close> returns a value. The handler of \<^verbatim>\<open>sat.py\<close> catches
  \<^verbatim>\<open>ValueError\<close> and \<^verbatim>\<open>IOError\<close>.
\<close>

datatype file_state = Missing | ReadRaises pyerr | Parsed pyval

definition fresh_data :: "int \<Rightarrow> pyval" where
  "fresh_data dflt = PDict [(''max_score'', PInt dflt), (''records'', PDict [])]"

definition ensure_key :: "string \<Rightarrow> pyval \<Rightarrow> (string \<times> pyval) list \<Rightarrow> (string \<times> pyval) list" where
  "ensure_key k v d = (if map_of d k = None then AList.update k v d else d)"

fun load_data :: "file_state \<Rightarrow> pyerr + pyval" where
  "load_data Missing = Inr (fresh_data default_max_score)"
| "load_data (ReadRaises e) =
     (if is_ValueError e \<or> is_IOError e then Inr (fresh_data default_max_score) else Inl e)"
| "load_data (Parsed (PDict d)) =
     Inr (PDict (ensure_key ''records'' (PDict [])
                  (ensure_key ''max_score'' (PInt default_max_score) d)))"
| "load_data (Parsed v) = Inr (fresh_data default_max_score)"

section \<open>\<^verbatim>\<open>sat_manager.py\<close>: the module-level functions\<close>

text \<open>
  \<^verbatim>\<open>load_data\<close> replaces a file whose reading raises any \<^verbatim>\<open>Exception\<close> by
  \<^verbatim>\<open>{"max_score": 100, "records": {}}\<close> and then ensures the two keys on whatever
  value it holds: \<^verbatim>\<open>key not in data\<close> is key lookup on a dict, membership on a list,
  a substring test on a string and a \<^verbatim>\<open>TypeError\<close> on anything else;
  \<^verbatim>\<open>data[key] = v\<close> is a \<^verbatim>\<open>TypeError\<close> on anything but a dict.
\<close>

fun contains_str :: "string \<Rightarrow> string \<Rightarrow> bool" where
  "contains_str k [] = (k = [])"
| "contains_str k (c # cs) = (take (length k) (c # cs) = k \<or> contains_str k cs)"

fun py_contains :: "pyval \<Rightarrow> string \<Rightarrow> pyerr + bool" where
  "py_contains (PDict d) k = Inr (map_of d k \<noteq> None)"
| "py_contains (PList xs) k = Inr (PStr k \<in> set xs)"
| "py_contains (PStr t) k = Inr (contains_str k t)"
| "py_contains v k = Inl TypeError"

fun py_setitem :: "pyval \<Rightarrow> string \<Rightarrow> pyval \<Rightarrow> pyerr + pyval" where
  "py_setitem (PDict d) k v = Inr (PDict (AList.update k v d))"
| "py_setitem x k v = Inl TypeError"

definition ensure_key_mgr :: "string \<Rightarrow> pyval \<Rightarrow> pyval \<Rightarrow> pyerr + pyval" where
  "ensure_key_mgr k v data =
     (case py_contains data k of
        Inl e \<Rightarrow> Inl e
      | Inr present \<Rightarrow> if present then Inr data else py_setitem data k v)"

definition load_data_mgr :: "file_state \<Rightarrow> pyerr + pyval" where
  "load_data_mgr f =
     (let data = (case f of Parsed v \<Rightarrow> v | _ \<Rightarrow> fresh_data 100)
      in case ensure_key_mgr ''max_score'' (PInt 100) data of
           Inl e \<Rightarrow> Inl e
         | Inr data1 \<Rightarrow> ensure_key_mgr ''records'' (PDict []) data1)"

text \<open>\<^verbatim>\<open>save_data\<close> has no handler: whatever the write raises leaves it.\<close>

definition save_data_mgr :: "disk \<Rightarrow> store \<Rightarrow> pyerr + unit" where
  "save_data_mgr dk s = (case dk of WriteOk \<Rightarrow> Inr () | WriteRaises e \<Rightarrow> Inl e)"

definition compute_pass_mgr :: "pyval \<Rightarrow> pyval \<Rightarrow> pyerr + bool" where
  "compute_pass_mgr score mx =
     (case py_float score of
        Inl e \<Rightarrow> Inr False
      | Inr sc \<Rightarrow>
          (case py_float mx of
             Inl e \<Rightarrow> Inl e
           | Inr m \<Rightarrow> Inr (fgt sc (fmul lit_0_3 m))))"

fun read_float :: "string list \<Rightarrow> (pyfloat \<times> string list) option" where
  "read_float [] = None"
| "read_float (l # ls) =
     (case float_of_str (strip l) of
        None \<Rightarrow> read_float ls
      | Some score \<Rightarrow> Some (score, ls))"

definition insert_data_mgr :: "store \<Rightarrow> string list \<Rightarrow> disk \<Rightarrow> result" where
  "insert_data_mgr s ins dk =
     (case read_line ins of
        None \<Rightarrow> finish s (Raised EOFError)
      | Some (nm, ins1) \<Rightarrow>
     if nm = [] then finish s EmptyName
     else if map_of (records s) nm \<noteq> None then finish s AlreadyExists
     else
     (case read_line ins1 of
        None \<Rightarrow> finish s (Raised EOFError)
      | Some (addr, ins2) \<Rightarrow>
     (case read_line ins2 of
        None \<Rightarrow> finish s (Raised EOFError)
      | Some (cty, ins3) \<Rightarrow>
     (case read_line ins3 of
        None \<Rightarrow> finish s (Raised EOFError)
      | Some (ctry, ins4) \<Rightarrow>
     (case read_line ins4 of
        None \<Rightarrow> finish s (Raised EOFError)
      | Some (pin, ins5) \<Rightarrow>
     (case read_float ins5 of
        None \<Rightarrow> finish s (Raised EOFError)
      | Some (score, ins6) \<Rightarrow>
     (case compute_pass_mgr (PFloat score) (PFloat (max_score s)) of
        Inl e \<Rightarrow> finish s (Raised e)
      | Inr p \<Rightarrow>
          (let rec = \<lparr>name = nm, address = addr, city = cty, country = ctry,
                      pincode = pin, sat_score = score, passed = p\<rparr>;
               s1 = s\<lparr>records := AList.update nm rec (records s)\<rparr>
           in case save_data_mgr dk s1 of
                Inl e \<Rightarrow> \<lparr>mem = s1, dumped = Some s1, status = Raised e\<rparr>
              | Inr u \<Rightarrow> \<lparr>mem = s1, dumped = Some s1, status = Saved\<rparr>))))))))"

text \<open>\<^verbatim>\<open>get_rank\<close> prints the score, the rank out of the total and the same note.\<close>

definition get_rank_mgr :: "store \<Rightarrow> string list \<Rightarrow> rank_result" where
  "get_rank_mgr s ins =
     (if records s = [] then RankNoRecords
      else case read_line ins of
        None \<Rightarrow> RankEof
      | Some (nm, ins1) \<Rightarrow>
          (case map_of (records s) nm of
             None \<Rightarrow> RankNotFound
           | Some cand \<Rightarrow>
               (let my_score = sat_score cand;
                    rnk = 1 + higher_count s my_score;
                    same = same_score_count s my_score
                in Rank \<lparr>r_score = my_score, r_rank = rnk,
                         r_total = length (all_scores s), r_percentile = None,
                         r_note = (if same > 1 then Some same else None)\<rparr>)))"

definition update_score_mgr :: "store \<Rightarrow> string list \<Rightarrow> disk \<Rightarrow> result" where
  "update_score_mgr s ins dk =
     (if records s = [] then finish s NoRecords
      else case read_line ins of
        None \<Rightarrow> finish s (Raised EOFError)
      | Some (nm, ins1) \<Rightarrow>
     (case map_of (records s) nm of
        None \<Rightarrow> finish s NotFound
      | Some rec \<Rightarrow>
     (case read_float ins1 of
        None \<Rightarrow> finish s (Raised EOFError)
      | Some (new_score, ins2) \<Rightarrow>
          (let s1 = s\<lparr>records := AList.update nm (rec\<lparr>sat_score := new_score\<rparr>) (records s)\<rparr>
           in case compute_pass_mgr (PFloat new_score) (PFloat (max_score s)) of
                Inl e \<Rightarrow> finish s1 (Raised e)
              | Inr p \<Rightarrow>
                  (let s2 = s\<lparr>records := AList.update nm
                                 (rec\<lparr>sat_score := new_score, passed := p\<rparr>) (records s1)\<rparr>
                   in case save_data_mgr dk s2 of
                        Inl e \<Rightarrow> \<lparr>mem = s2, dumped = Some s2, status = Raised e\<rparr>
                      | Inr u \<Rightarrow> \<lparr>mem = s2, dumped = Some s2, status = Saved\<rparr>)))))"

definition delete_one_record_mgr :: "store \<Rightarrow> string list \<Rightarrow> disk \<Rightarrow> result" where
  "delete_one_record_mgr s ins dk =
     (if records s = [] then finish s NoRecords
      else case read_line ins of
        None \<Rightarrow> finish s (Raised EOFError)
      | Some (nm, ins1) \<Rightarrow>
     if map_of (records s) nm = None then finish s NotFound
     else
     (case read_line ins1 of
        None \<Rightarrow> finish s (Raised EOFError)
      | Some (answer, ins2) \<Rightarrow>
          if lower answer = ''yes'' then
            (let s1 = s\<lparr>records := AList.delete nm (records s)\<rparr>
             in case save_data_mgr dk s1 of
                  Inl e \<Rightarrow> \<lparr>mem = s1, dumped = Some s1, status = Raised e\<rparr>
                | Inr u \<Rightarrow> \<lparr>mem = s1, dumped = Some s1, status = Saved\<rparr>)
          else finish s Cancelled))"

text \<open>
  \<^verbatim>\<open>set_max_score\<close>: the assignment, the recomputation and the save sit inside the
  \<^verbatim>\<open>try\<close> whose handler catches \<^verbatim>\<open>ValueError\<close> only and prompts again, with the
  store as it then is; the recomputation stops at the first record on which
  \<^verbatim>\<open>compute_pass\<close> raises.
\<close>

fun recompute_mgr ::
  "pyfloat \<Rightarrow> (string \<times> candidate) list \<Rightarrow> (string \<times> candidate) list \<times> pyerr option" where
  "recompute_mgr mx [] = ([], None)"
| "recompute_mgr mx ((k, r) # rs) =
     (case compute_pass_mgr (PFloat (sat_score r)) (PFloat mx) of
        Inl e \<Rightarrow> ((k, r) # rs, Some e)
      | Inr p \<Rightarrow>
          (case recompute_mgr mx rs of
             (rs', err) \<Rightarrow> ((k, r\<lparr>passed := p\<rparr>) # rs', err)))"

definition after_dump :: "store \<Rightarrow> result \<Rightarrow> result" where
  "after_dump s1 r = (case dumped r of None \<Rightarrow> r\<lparr>dumped := Some s1\<rparr> | Some d \<Rightarrow> r)"

fun set_max_score_mgr :: "store \<Rightarrow> string list \<Rightarrow> disk \<Rightarrow> result" where
  "set_max_score_mgr s [] dk = finish s (Raised EOFError)"
| "set_max_score_mgr s (l # ls) dk =
     (if strip l = [] then finish s Cancelled
      else case float_of_str (strip l) of
        None \<Rightarrow> set_max_score_mgr s ls dk
      | Some nm \<Rightarrow>
          if fle nm (Fin 0) then set_max_score_mgr s ls dk
          else
            (case recompute_mgr nm (records s) of
               (rs, err) \<Rightarrow>
                 (let s1 = \<lparr>max_score = nm, records = rs\<rparr>
                  in case err of
                       Some e \<Rightarrow>
                         if is_ValueError e then set_max_score_mgr s1 ls dk
                         else finish s1 (Raised e)
                     | None \<Rightarrow>
                         (case save_data_mgr dk s1 of
                            Inl e \<Rightarrow>
                              if is_ValueError e
                              then after_dump s1 (set_max_score_mgr s1 ls dk)
                              else \<lparr>mem = s1, dumped = Some s1, status = Raised e\<rparr>
                          | Inr u \<Rightarrow> \<lparr>mem = s1, dumped = Some s1, status = Saved\<rparr>))))"

section \<open>Notions used by the properties\<close>

text \<open>
  The four mutating operations, as the menus dispatch them (choices 1, 4, 5 and 10 of
  \<^verbatim>\<open>run\<close> in \<^verbatim>\<open>sat.py\<close> and of \<^verbatim>\<open>menu_loop\<close> in \<^verbatim>\<open>sat_manager.py\<close>).
\<close>

datatype mutation = Insert | UpdateScore | DeleteRecord | SetMaxScore

fun perform :: "mutation \<Rightarrow> store \<Rightarrow> string list \<Rightarrow> disk \<Rightarrow> result" where
  "perform Insert s ins dk = insert_data s ins dk"
| "perform UpdateScore s ins dk = update_score s ins dk"
| "perform DeleteRecord s ins dk = delete_one_record s ins dk"
| "perform SetMaxScore s ins dk = set_max_score s ins dk"

fun perform_mgr :: "mutation \<Rightarrow> store \<Rightarrow> string list \<Rightarrow> disk \<Rightarrow> result" where
  "perform_mgr Insert s ins dk = insert_data_mgr s ins dk"
| "perform_mgr UpdateScore s ins dk = update_score_mgr s ins dk"
| "perform_mgr DeleteRecord s ins dk = delete_one_record_mgr s ins dk"
| "perform_mgr SetMaxScore s ins dk = set_max_score_mgr s ins dk"

text \<open>
  The pass rule of the data model: \<^verbatim>\<open>passed == (sat_score > 0.3 * max_score)\<close>, for one
  record and for every record of a store.
\<close>

definition pass_rule :: "pyfloat \<Rightarrow> candidate \<Rightarrow> bool" where
  "pass_rule mx r = (passed r = fgt (sat_score r) (fmul lit_0_3 mx))"

definition store_inv :: "store \<Rightarrow> bool" where
  "store_inv s = list_all (\<lambda>(k, r). pass_rule (max_score s) r) (records s)"

text \<open>The pincode format of the data model: non-empty, digits only, at least 3 digits.\<close>

definition pincode_ok :: "string \<Rightarrow> bool" where
  "pincode_ok p = (p \<noteq> [] \<and> list_all is_digit p \<and> 3 \<le> length p)"

text \<open>\<^verbatim>\<open>isinstance(data, dict)\<close>, the structural check of \<^verbatim>\<open>load_data\<close> in \<^verbatim>\<open>sat.py\<close>.\<close>

fun is_dict :: "pyval \<Rightarrow> bool" where
  "is_dict (PDict d) = True"
| "is_dict v = False"

subsection \<open>Example stores\<close>

definition bob :: candidate where
  "bob = \<lparr>name = ''bob'', address = ''1 Main St'', city = ''Pune'', country = ''IN'',
           pincode = ''411001'', sat_score = Fin 500, passed = True\<rparr>"

definition amy :: candidate where
  "amy = \<lparr>name = ''amy'', address = ''2 Hill Rd'', city = ''Pune'', country = ''IN'',
           pincode = ''411002'', sat_score = Fin 500, passed = True\<rparr>"

definition cat :: candidate where
  "cat = \<lparr>name = ''cat'', address = ''3 Lake Rd'', city = ''Pune'', country = ''IN'',
           pincode = ''411003'', sat_score = Fin 100, passed = False\<rparr>"

definition store_bob :: store where
  "store_bob = \<lparr>max_score = Fin 1600, records = [(''bob'', bob)]\<rparr>"

definition store_two :: store where
  "store_two = \<lparr>max_score = Fin 1600, records = [(''bob'', bob), (''amy'', amy)]\<rparr>"

definition store_three :: store where
  "store_three =
     \<lparr>max_score = Fin 1600, records = [(''bob'', bob), (''amy'', amy), (''cat'', cat)]\<rparr>"

definition store_empty :: "pyfloat \<Rightarrow> store" where
  "store_empty mx = \<lparr>max_score = mx, records = []\<rparr>"

section \<open>Auxiliary facts\<close>

subsection \<open>Floats\<close>

lemma feq_same_greater: "feq a b \<Longrightarrow> fgt x a = fgt x b"
  by (cases a; cases b; cases x) (auto simp: fgt_def)

lemma feq_same_equal: "feq a b \<Longrightarrow> feq x a = feq x b"
  by (cases a; cases b; cases x) auto

lemma not_flt_zero: "\<not> flt x (Fin 0) \<Longrightarrow> x \<noteq> NaN \<Longrightarrow> fle (Fin 0) x"
  by (cases x) (auto simp: fle_def)

lemma not_fgt_fle: "\<not> fgt x m \<Longrightarrow> x \<noteq> NaN \<Longrightarrow> m \<noteq> NaN \<Longrightarrow> fle x m"
  by (cases x; cases m) (auto simp: fle_def fgt_def)

lemma ilog2_le_zero:
  assumes "0 < x" and "x \<le> 1"
  shows "ilog2 x \<le> 0"
proof -
  obtain p q where pq: "quotient_of x = (p, q)"
    by (cases "quotient_of x")
  have q: "0 < q"
    using pq by (rule quotient_of_denom_pos)
  have x: "x = of_int p / of_int q"
    using pq by (rule quotient_of_div)
  have "p \<le> q"
    using assms(2) q x by (simp add: divide_le_eq)
  then have "bitlen p \<le> bitlen q"
    by (simp add: bitlen_def floorlog_mono)
  then show ?thesis
    by (simp add: ilog2_def pq Let_def)
qed

lemma round_mag_small:
  assumes "0 < x" and "x \<le> 1"
  shows "\<exists>r. round_mag x = Fin r"
  using assms ilog2_le_zero[OF assms] by (simp add: round_mag_def Let_def)

lemma int_truediv_fraction:
  assumes "0 < a" and "a \<le> b"
  shows "int_truediv a b = Inr (round_double (of_int a / of_int b))"
proof -
  have "0 < (of_int a / of_int b :: rat)" and "(of_int a / of_int b :: rat) \<le> 1"
    using assms by simp_all
  from round_mag_small[OF this] obtain r where "round_mag (of_int a / of_int b) = Fin r" ..
  moreover have "\<not> (of_int a / of_int b :: rat) < 0"
    using assms by (simp add: divide_less_0_iff)
  ultimately show ?thesis
    using assms by (simp add: int_truediv_def round_double_def finite_or_overflow_def)
qed

subsection \<open>Dict updates and the pass rule\<close>



lemma update_absent: "map_of al k = None \<Longrightarrow> AList.update k v al = al @ [(k, v)]"
  by (induction al) (auto split: if_splits)

lemma map_of_delete_same: "map_of (AList.delete k al) k = None"
  by (simp add: AList.delete_conv')

lemma map_of_delete_update:
  "map_of al k = Some v \<Longrightarrow> map_of (AList.update k v (AList.delete k al)) = map_of al"
  by (auto simp: AList.update_conv' AList.delete_conv' fun_eq_iff)

lemma store_inv_iff:
  "store_inv s \<longleftrightarrow> (\<forall>(k, r) \<in> set (records s). pass_rule (max_score s) r)"
  by (auto simp: store_inv_def list_all_iff)







lemma recompute_id:
  assumes "store_inv s"
  shows "recompute s = s"
proof -
  have "map (\<lambda>(k, r). (k, r\<lparr>passed := compute_pass s (sat_score r)\<rparr>)) (records s) = records s"
    using assms by (intro map_idI) (auto simp: store_inv_iff pass_rule_def compute_pass_def)
  then show ?thesis by (simp add: recompute_def)
qed

lemma recompute_max:
  "recompute ((recompute (s\<lparr>max_score := n\<rparr>))\<lparr>max_score := max_score s\<rparr>) = recompute s"
  by (simp add: recompute_def compute_pass_def comp_def case_prod_unfold)

lemma compute_pass_mgr_float:
  "compute_pass_mgr (PFloat a) (PFloat b) = Inr (fgt a (fmul lit_0_3 b))"
  by (simp add: compute_pass_mgr_def)

lemma recompute_mgr_eq:
  "recompute_mgr mx rs =
     (map (\<lambda>(k, r). (k, r\<lparr>passed := fgt (sat_score r) (fmul lit_0_3 mx)\<rparr>)) rs, None)"
  by (induction rs) (auto simp: compute_pass_mgr_float)


lemma read_new_name_fresh:
  "read_new_name s ins = Got nm rest \<Longrightarrow> map_of (records s) nm = None"
  by (induction ins) (auto split: if_splits)

subsection \<open>Each operation keeps the pass rule\<close>





















subsection \<open>What a max_score change writes\<close>



subsection \<open>Write failures\<close>

lemma insert_data_rollback: "mem (insert_data s ins (WriteRaises OSError)) = s"
  by (auto simp: insert_data_def finish_def Let_def save_data_def AList.delete_update_same
        AList.delete_id map_of_eq_None_iff[symmetric] dest!: read_new_name_fresh
      split: prompt.splits option.splits)

lemma update_score_rollback: "mem (update_score s ins (WriteRaises OSError)) = s"
  by (auto simp: update_score_def finish_def Let_def save_data_def AList.update_triv
      split: prompt.splits option.splits)

lemma delete_one_record_rollback:
  "max_score (mem (delete_one_record s ins (WriteRaises OSError))) = max_score s
   \<and> map_of (records (mem (delete_one_record s ins (WriteRaises OSError))))
       = map_of (records s)"
  by (auto simp: delete_one_record_def finish_def Let_def save_data_def map_of_delete_update
      split: prompt.splits option.splits)

lemma delete_one_record_restored:
  assumes "map_of (records s) (strip l) = Some rec"
    and "strip c = ''DELETE '' @ strip l"
  shows "delete_one_record s (l # c # rest) (WriteRaises OSError)
       = \<lparr>mem = s\<lparr>records := AList.delete (strip l) (records s) @ [(strip l, rec)]\<rparr>,
          dumped = Some (s\<lparr>records := AList.delete (strip l) (records s)\<rparr>),
          status = SaveFailed\<rparr>"
proof -
  have "records s \<noteq> []"
    using assms(1) by auto
  then show ?thesis
    using assms
    by (simp add: delete_one_record_def read_line_def Let_def save_data_def
        update_absent map_of_delete_same)
qed

lemma set_max_score_rollback:
  "mem (set_max_score s ins (WriteRaises OSError))
     = (case read_new_max ins of Got nm rest \<Rightarrow> recompute s | _ \<Rightarrow> s)"
  by (auto simp: set_max_score_def finish_def Let_def save_data_def recompute_max
      split: prompt.splits)

lemma perform_reported:
  "(dumped (perform m s ins (WriteRaises OSError)) \<noteq> None)
     = (status (perform m s ins (WriteRaises OSError)) = SaveFailed)"
  by (cases m)
     (auto simp: insert_data_def update_score_def delete_one_record_def set_max_score_def
        finish_def Let_def save_data_def split: prompt.splits option.splits if_splits)

lemma set_max_score_mgr_raises:
  "dumped (set_max_score_mgr s ins (WriteRaises OSError)) = Some d \<Longrightarrow>
     status (set_max_score_mgr s ins (WriteRaises OSError)) = Raised OSError
     \<and> mem (set_max_score_mgr s ins (WriteRaises OSError)) = d"
  by (induction s ins "WriteRaises OSError" rule: set_max_score_mgr.induct)
     (auto simp: finish_def Let_def save_data_mgr_def recompute_mgr_eq
      split: option.splits sum.splits if_splits)

lemma perform_mgr_raises:
  "dumped (perform_mgr m s ins (WriteRaises OSError)) = Some d \<Longrightarrow>
     status (perform_mgr m s ins (WriteRaises OSError)) = Raised OSError
     \<and> mem (perform_mgr m s ins (WriteRaises OSError)) = d"
  by (cases m)
     (auto simp: insert_data_mgr_def update_score_mgr_def delete_one_record_mgr_def
        finish_def Let_def save_data_mgr_def compute_pass_mgr_float
        dest: set_max_score_mgr_raises
        split: option.splits if_splits)

text \<open>
  An exception of the write that is not an \<^verbatim>\<open>IOError\<close> leaves \<^verbatim>\<open>save_data\<close> of
  \<^verbatim>\<open>sat.py\<close> and the operation: nothing is rolled back.
\<close>

lemma insert_data_other_exception:
  "insert_data (store_empty (Fin 1600))
     [''bob'', ''1 Main St'', ''Pune'', ''IN'', ''411001'', ''500''] (WriteRaises UnicodeEncodeError)
   = \<lparr>mem = store_bob, dumped = Some store_bob, status = Raised UnicodeEncodeError\<rparr>"
  by code_simp

lemma delete_one_record_not_failed:
  "status (delete_one_record s ins (WriteRaises OSError)) \<noteq> SaveFailed \<Longrightarrow>
     mem (delete_one_record s ins (WriteRaises OSError)) = s"
  by (auto simp: delete_one_record_def finish_def Let_def save_data_def
      split: option.splits if_splits)

section \<open>The claims\<close>




text \<open>
  Claim C2, as stated, fails: in \<^verbatim>\<open>sat_manager.py\<close> a failed write raises out of
  \<^verbatim>\<open>insert_data\<close> and the new record stays in memory.
\<close>

theorem C2_counterexample:
  "status (insert_data_mgr (store_empty (Fin 100))
             [''bob'', ''1 Main St'', ''Pune'', ''IN'', ''411001'', ''50''] (WriteRaises OSError))
     = Raised OSError
   \<and> mem (insert_data_mgr (store_empty (Fin 100))
             [''bob'', ''1 Main St'', ''Pune'', ''IN'', ''411001'', ''50''] (WriteRaises OSError))
     \<noteq> store_empty (Fin 100)"
proof -
  have "insert_data_mgr (store_empty (Fin 100))
          [''bob'', ''1 Main St'', ''Pune'', ''IN'', ''411001'', ''50''] (WriteRaises OSError)
        = \<lparr>mem = \<lparr>max_score = Fin 100, records = [(''bob'', bob\<lparr>sat_score := Fin 50\<rparr>)]\<rparr>,
           dumped = Some \<lparr>max_score = Fin 100,
                           records = [(''bob'', bob\<lparr>sat_score := Fin 50\<rparr>)]\<rparr>,
           status = Raised OSError\<rparr>"
    by code_simp
  then show ?thesis
    by (simp add: store_empty_def)
qed

text \<open>
  Claim C2, amended. In \<^verbatim>\<open>sat.py\<close>, when the write fails with an \<^verbatim>\<open>IOError\<close>
  (the failure that \<^verbatim>\<open>save_data\<close> catches):
  \<^item> insert and score update leave in memory exactly the store that was there before;
  \<^item> a max_score change leaves the old max_score and every flag recomputed under it,
    which is exactly the store before when the pass rule held for every record before;
  \<^item> delete leaves the max_score and the name-to-record mapping of before; when the
    deletion was confirmed, the records are the old ones without the deleted record,
    followed by that record (it is re-inserted at the end of the dict), and otherwise
    the store is exactly the one before;
  \<^item> the failure is reported (\<open>SaveFailed\<close>) exactly when a write was attempted.

  In \<^verbatim>\<open>sat_manager.py\<close> nothing is rolled back: the failed write raises out of the
  operation, and the store in memory is the mutated one that was handed to the write.
  Nothing is said about a write that raises another exception than \<^verbatim>\<open>IOError\<close>.
\<close>

theorem C2_rollback_on_write_failure:
  "mem (insert_data s ins (WriteRaises OSError)) = s
   \<and> mem (update_score s ins (WriteRaises OSError)) = s
   \<and> mem (set_max_score s ins (WriteRaises OSError))
       = (case read_new_max ins of Got nm rest \<Rightarrow> recompute s | _ \<Rightarrow> s)
   \<and> (store_inv s \<longrightarrow> mem (set_max_score s ins (WriteRaises OSError)) = s)
   \<and> max_score (mem (delete_one_record s ins (WriteRaises OSError))) = max_score s
   \<and> map_of (records (mem (delete_one_record s ins (WriteRaises OSError))))
       = map_of (records s)
   \<and> (map_of (records s) (strip l) = Some r \<and> strip c = ''DELETE '' @ strip l \<longrightarrow>
        delete_one_record s (l # c # rest) (WriteRaises OSError)
          = \<lparr>mem = s\<lparr>records := AList.delete (strip l) (records s) @ [(strip l, r)]\<rparr>,
             dumped = Some (s\<lparr>records := AList.delete (strip l) (records s)\<rparr>),
             status = SaveFailed\<rparr>)
   \<and> (status (delete_one_record s ins (WriteRaises OSError)) \<noteq> SaveFailed \<longrightarrow>
        mem (delete_one_record s ins (WriteRaises OSError)) = s)
   \<and> ((dumped (perform m s ins (WriteRaises OSError)) \<noteq> None)
        = (status (perform m s ins (WriteRaises OSError)) = SaveFailed))
   \<and> (\<forall>d. dumped (perform_mgr m s ins (WriteRaises OSError)) = Some d \<longrightarrow>
          status (perform_mgr m s ins (WriteRaises OSError)) = Raised OSError
          \<and> mem (perform_mgr m s ins (WriteRaises OSError)) = d)"
proof -
  have ins_same: "mem (insert_data s ins (WriteRaises OSError)) = s"
    by (rule insert_data_rollback)
  have upd_same: "mem (update_score s ins (WriteRaises OSError)) = s"
    by (rule update_score_rollback)
  have max_back: "mem (set_max_score s ins (WriteRaises OSError))
       = (case read_new_max ins of Got nm rest \<Rightarrow> recompute s | _ \<Rightarrow> s)"
    by (rule set_max_score_rollback)
  have max_same: "store_inv s \<longrightarrow> mem (set_max_score s ins (WriteRaises OSError)) = s"
    by (simp add: set_max_score_rollback recompute_id split: prompt.splits)
  have del_max: "max_score (mem (delete_one_record s ins (WriteRaises OSError))) = max_score s"
    using delete_one_record_rollback[of s ins] by (rule conjunct1)
  have del_map: "map_of (records (mem (delete_one_record s ins (WriteRaises OSError))))
       = map_of (records s)"
    using delete_one_record_rollback[of s ins] by (rule conjunct2)
  have del_order: "map_of (records s) (strip l) = Some r \<and> strip c = ''DELETE '' @ strip l \<longrightarrow>
        delete_one_record s (l # c # rest) (WriteRaises OSError)
          = \<lparr>mem = s\<lparr>records := AList.delete (strip l) (records s) @ [(strip l, r)]\<rparr>,
             dumped = Some (s\<lparr>records := AList.delete (strip l) (records s)\<rparr>),
             status = SaveFailed\<rparr>"
    using delete_one_record_restored[of s l r c rest] by blast
  have del_else: "status (delete_one_record s ins (WriteRaises OSError)) \<noteq> SaveFailed \<longrightarrow>
        mem (delete_one_record s ins (WriteRaises OSError)) = s"
    using delete_one_record_not_failed[of s ins] by blast
  have reported: "(dumped (perform m s ins (WriteRaises OSError)) \<noteq> None)
        = (status (perform m s ins (WriteRaises OSError)) = SaveFailed)"
    by (rule perform_reported)
  have mgr: "\<forall>d. dumped (perform_mgr m s ins (WriteRaises OSError)) = Some d \<longrightarrow>
          status (perform_mgr m s ins (WriteRaises OSError)) = Raised OSError
          \<and> mem (perform_mgr m s ins (WriteRaises OSError)) = d"
    using perform_mgr_raises[of m s ins] by blast
  show ?thesis
    using ins_same upd_same max_back max_same del_max del_map del_order del_else reported mgr
    by (intro conjI)
qed

theorem C2_rollback_on_write_failure_witness:
  "store_inv store_two
   \<and> mem (set_max_score store_two [''2000''] (WriteRaises OSError)) = store_two
   \<and> map_of (records store_two) (strip ''bob '') = Some bob
   \<and> strip '' DELETE bob'' = ''DELETE '' @ strip ''bob ''
   \<and> delete_one_record store_two [''bob '', '' DELETE bob''] (WriteRaises OSError)
       = \<lparr>mem = \<lparr>max_score = Fin 1600, records = [(''amy'', amy), (''bob'', bob)]\<rparr>,
          dumped = Some \<lparr>max_score = Fin 1600, records = [(''amy'', amy)]\<rparr>,
          status = SaveFailed\<rparr>
   \<and> status (update_score store_two [''bob''] (WriteRaises OSError)) \<noteq> SaveFailed
   \<and> mem (delete_one_record store_two [''bob'', ''no''] (WriteRaises OSError)) = store_two
   \<and> status (perform_mgr SetMaxScore store_two [''2000''] (WriteRaises OSError))
       = Raised OSError"
proof -
  note at_two = C2_rollback_on_write_failure[where s = store_two and ins = "[''2000'']"
      and l = "''bob ''" and r = bob and c = "'' DELETE bob''" and rest = "[]"
      and m = SetMaxScore]
  note at_cancel = C2_rollback_on_write_failure[where s = store_two and ins = "[''bob'', ''no'']"]
  have inv: "store_inv store_two"
    by code_simp
  have found: "map_of (records store_two) (strip ''bob '') = Some bob"
    by code_simp
  have confirmed: "strip '' DELETE bob'' = ''DELETE '' @ strip ''bob ''"
    by code_simp
  have literal: "store_two\<lparr>records := AList.delete (strip ''bob '') (records store_two)
          @ [(strip ''bob '', bob)]\<rparr>
        = \<lparr>max_score = Fin 1600, records = [(''amy'', amy), (''bob'', bob)]\<rparr>"
      "store_two\<lparr>records := AList.delete (strip ''bob '') (records store_two)\<rparr>
        = \<lparr>max_score = Fin 1600, records = [(''amy'', amy)]\<rparr>"
    by code_simp+
  have cancelled: "status (delete_one_record store_two [''bob'', ''no''] (WriteRaises OSError))
       \<noteq> SaveFailed"
    by code_simp
  have eof: "status (update_score store_two [''bob''] (WriteRaises OSError)) \<noteq> SaveFailed"
    by code_simp
  have attempted: "dumped (perform_mgr SetMaxScore store_two [''2000''] (WriteRaises OSError))
       = Some (recompute (store_two\<lparr>max_score := Fin 2000\<rparr>))"
    by code_simp
  have same: "mem (set_max_score store_two [''2000''] (WriteRaises OSError)) = store_two"
    using at_two[THEN conjunct2, THEN conjunct2, THEN conjunct2, THEN conjunct1, THEN mp, OF inv] .
  have restored: "delete_one_record store_two [''bob '', '' DELETE bob''] (WriteRaises OSError)
       = \<lparr>mem = \<lparr>max_score = Fin 1600, records = [(''amy'', amy), (''bob'', bob)]\<rparr>,
          dumped = Some \<lparr>max_score = Fin 1600, records = [(''amy'', amy)]\<rparr>,
          status = SaveFailed\<rparr>"
    using at_two[THEN conjunct2, THEN conjunct2, THEN conjunct2, THEN conjunct2, THEN conjunct2,
        THEN conjunct2, THEN conjunct1, THEN mp, OF conjI, OF found confirmed]
    by (simp only: literal)
  have unchanged: "mem (delete_one_record store_two [''bob'', ''no''] (WriteRaises OSError))
       = store_two"
    using at_cancel[THEN conjunct2, THEN conjunct2, THEN conjunct2, THEN conjunct2, THEN conjunct2,
        THEN conjunct2, THEN conjunct2, THEN conjunct1, THEN mp, OF cancelled] .
  have raised: "status (perform_mgr SetMaxScore store_two [''2000''] (WriteRaises OSError))
       = Raised OSError"
    using at_two[THEN conjunct2, THEN conjunct2, THEN conjunct2, THEN conjunct2, THEN conjunct2,
        THEN conjunct2, THEN conjunct2, THEN conjunct2, THEN conjunct2, THEN spec, THEN mp,
        OF attempted]
    by (rule conjunct1)
  show ?thesis
    using inv same found confirmed restored eof unchanged raised by (intro conjI)
qed

end
